theory Spec2Isabelle
  imports Complex_Main "HOL-Library.Char_ord" "HOL-Library.List_Lexorder"
begin

section \<open>Monetary values\<close>

text \<open>
  The repository handles money as Python \<^verbatim>\<open>Decimal\<close> objects and stores them as exact
  decimal text (\<^verbatim>\<open>adapt_decimal\<close> writes \<^verbatim>\<open>str(d)\<close>, \<^verbatim>\<open>convert_decimal\<close> reads it back
  with \<^verbatim>\<open>Decimal(text)\<close>). A finite \<^verbatim>\<open>Decimal\<close> is modelled by its exact value, a
  rational number; the text round trip is then the identity, and a monetary column holds
  the value that \<^verbatim>\<open>convert_decimal\<close> reads from it. The special values (NaN, Infinity) and
  the 28-digit limit of the arithmetic context are outside this model: amounts range over
  finite decimals of unbounded precision.
\<close>

type_synonym decimal = rat

text \<open>
  \<^verbatim>\<open>d.quantize(Decimal('0.01'), rounding=ROUND_HALF_UP)\<close>: the nearest multiple of 0.01,
  a tie going away from zero (the rounding works on the magnitude, the sign is kept).
\<close>

definition quantize :: "decimal \<Rightarrow> decimal" where
  "quantize x =
     (if x < 0 then - (of_int \<lfloor>- x * 100 + 1 / 2\<rfloor> / 100)
      else of_int \<lfloor>x * 100 + 1 / 2\<rfloor> / 100)"


section \<open>Strings\<close>

text \<open>
  Strings are byte strings here (ASCII text). \<^verbatim>\<open>str.strip()\<close> removes leading and
  trailing whitespace, \<^verbatim>\<open>str.lower()\<close> folds the letters A to Z.
\<close>

definition isspace :: "char \<Rightarrow> bool" where
  "isspace c = (c \<in> set [CHR '' '', CHR 0x09, CHR 0x0A, CHR 0x0B, CHR 0x0C, CHR 0x0D,
                           CHR 0x1C, CHR 0x1D, CHR 0x1E, CHR 0x1F])"

definition strip :: "string \<Rightarrow> string" where
  "strip s = rev (dropWhile isspace (rev (dropWhile isspace s)))"

definition lower_char :: "char \<Rightarrow> char" where
  "lower_char c =
     (case map_of (zip ''ABCDEFGHIJKLMNOPQRSTUVWXYZ'' ''abcdefghijklmnopqrstuvwxyz'') c of
        None \<Rightarrow> c
      | Some l \<Rightarrow> l)"

definition lower :: "string \<Rightarrow> string" where
  "lower s = map lower_char s"

text \<open>SQLite's \<^verbatim>\<open>COLLATE NOCASE\<close> compares after folding the ASCII letters.\<close>

definition nocase_eq :: "string \<Rightarrow> string \<Rightarrow> bool" where
  "nocase_eq a b = (lower a = lower b)"

section \<open>The persisted store\<close>

text \<open>
  One record per table row, with the columns of the DDL in \<^verbatim>\<open>initialize_db\<close>. The
  \<^verbatim>\<open>created_at\<close> timestamps are left out, and so is the surrogate \<^verbatim>\<open>id\<close> of a budget
  row: no operation below reads them (a budget is addressed by category and month). A
  table is the list of its rows; the accounts and transactions tables also carry the
  largest \<^verbatim>\<open>AUTOINCREMENT\<close> key ever handed out (SQLite's \<^verbatim>\<open>sqlite_sequence\<close>).
\<close>

record account =
  acc_id :: int
  acc_name :: string
  initial_balance :: decimal

record category =
  cat_id :: int
  cat_name :: string
  cat_type :: string

record transaction_row =
  tx_id :: int
  tx_account_id :: int
  tx_date :: string
  tx_description :: string
  tx_amount :: decimal
  tx_category_id :: "int option"

record budget =
  bud_category_id :: int
  bud_month :: string
  bud_amount :: decimal

record store =
  accounts :: "account list"
  categories :: "category list"
  transactions :: "transaction_row list"
  budgets :: "budget list"
  accounts_seq :: int
  transactions_seq :: int

text \<open>
  \<^verbatim>\<open>get_db_connection\<close> commits when the block ends normally and rolls back when an
  \<^verbatim>\<open>sqlite3.Error\<close> is raised. Two kinds of error reach the \<^verbatim>\<open>except\<close> clauses of the
  repository functions: a constraint violation (\<^verbatim>\<open>IntegrityError\<close>), which the model
  derives from the rows, and a fault of the storage engine itself (cannot open the file,
  I/O error, locked database), which is an input of the model: the \<open>connection\<close>
  argument says whether the engine fails during the call.
\<close>

datatype sqlite_error = IntegrityError | OperationalError

datatype connection = Conn_ok | Conn_fault


definition category_by_id :: "store \<Rightarrow> int \<Rightarrow> category option" where
  "category_by_id st i = find (\<lambda>c. cat_id c = i) (categories st)"


section \<open>Balance calculation\<close>








section \<open>Spending report\<close>

text \<open>
  \<^verbatim>\<open>get_spending_by_category\<close> runs one query and then filters its rows in Python.
  The query is
  \<^verbatim>\<open>SELECT IFNULL(c.name, 'Uncategorized') AS category_name, SUM(t.amount)
  FROM transactions t LEFT JOIN categories c ON t.category_id = c.id
  WHERE CAST(t.amount AS REAL) < 0 AND t.date BETWEEN ? AND ?
  GROUP BY category_name HAVING SUM(t.amount) < '0' ORDER BY ABS(SUM(t.amount)) DESC\<close>.
\<close>











section \<open>Categories\<close>

definition update_category_tx ::
    "connection \<Rightarrow> store \<Rightarrow> int \<Rightarrow> string \<Rightarrow> string \<Rightarrow> sqlite_error + (bool \<times> store)" where
  "update_category_tx conn st category_id cleaned_name cleaned_type =
     (case conn of
        Conn_fault \<Rightarrow> Inl OperationalError
      | Conn_ok \<Rightarrow>
          (case category_by_id st category_id of
             None \<Rightarrow> Inr (False, st)
           | Some original_cat \<Rightarrow>
               if lower (cat_name original_cat) = ''uncategorized'' then Inr (False, st)
               else if (\<exists>c \<in> set (categories st).
                           cat_id c \<noteq> category_id \<and> nocase_eq (cat_name c) cleaned_name)
                       \<or> cleaned_type \<notin> set [''expense'', ''income'']
                    then Inl IntegrityError
               else Inr (True,
                      st\<lparr>categories :=
                           map (\<lambda>c. if cat_id c = category_id
                                     then c\<lparr>cat_name := cleaned_name, cat_type := cleaned_type\<rparr>
                                     else c)
                             (categories st)\<rparr>)))"

definition update_category ::
    "connection \<Rightarrow> store \<Rightarrow> int \<Rightarrow> string \<Rightarrow> string \<Rightarrow> bool \<times> store" where
  "update_category conn st category_id new_name new_type =
     (let cleaned_name = strip new_name; cleaned_type = lower (strip new_type)
      in if cleaned_name = [] then (False, st)
         else if lower cleaned_name = ''uncategorized'' then (False, st)
         else if cleaned_type \<notin> set [''expense'', ''income''] then (False, st)
         else (case update_category_tx conn st category_id cleaned_name cleaned_type of
                 Inl IntegrityError \<Rightarrow> (False, st)
               | Inl OperationalError \<Rightarrow> (False, st)
               | Inr r \<Rightarrow> r))"

text \<open>
  Deleting a category row fires the foreign keys of the DDL: transactions that refer to
  it get a null reference (\<^verbatim>\<open>ON DELETE SET NULL\<close>), its budgets go with it
  (\<^verbatim>\<open>ON DELETE CASCADE\<close>).
\<close>

definition delete_category_tx ::
    "connection \<Rightarrow> store \<Rightarrow> int \<Rightarrow> sqlite_error + (bool \<times> store)" where
  "delete_category_tx conn st category_id =
     (case conn of
        Conn_fault \<Rightarrow> Inl OperationalError
      | Conn_ok \<Rightarrow>
          (case category_by_id st category_id of
             None \<Rightarrow> Inr (False, st)
           | Some cat \<Rightarrow>
               if lower (cat_name cat) = ''uncategorized'' then Inr (False, st)
               else Inr (True,
                      st\<lparr>categories := filter (\<lambda>c. cat_id c \<noteq> category_id) (categories st),
                         transactions :=
                           map (\<lambda>t. if tx_category_id t = Some category_id
                                     then t\<lparr>tx_category_id := None\<rparr> else t)
                             (transactions st),
                         budgets :=
                           filter (\<lambda>b. bud_category_id b \<noteq> category_id) (budgets st)\<rparr>)))"

definition delete_category :: "connection \<Rightarrow> store \<Rightarrow> int \<Rightarrow> bool \<times> store" where
  "delete_category conn st category_id =
     (case delete_category_tx conn st category_id of
        Inl e \<Rightarrow> (False, st)
      | Inr r \<Rightarrow> r)"

section \<open>Budgets\<close>







section \<open>Transactions\<close>








section \<open>Accounts\<close>




section \<open>Parsing monetary text\<close>















section \<open>Example stores\<close>

text \<open>
  The scenario of the specification: account Checking with initial balance 100.00, a
  grocery expense of 25.50 on 2024-01-05 and a salary of 1000.00 on 2024-01-10; beside it
  an account Savings with initial balance 0.00 and no transactions.
\<close>

definition scenario_categories :: "category list" where
  "scenario_categories =
     [\<lparr>cat_id = 1, cat_name = ''Uncategorized'', cat_type = ''expense''\<rparr>,
      \<lparr>cat_id = 2, cat_name = ''Groceries'', cat_type = ''expense''\<rparr>,
      \<lparr>cat_id = 3, cat_name = ''Salary'', cat_type = ''income''\<rparr>]"

definition scenario_store :: store where
  "scenario_store =
     \<lparr>accounts =
        [\<lparr>acc_id = 1, acc_name = ''Checking'', initial_balance = 100\<rparr>,
         \<lparr>acc_id = 2, acc_name = ''Savings'', initial_balance = 0\<rparr>],
      categories = scenario_categories,
      transactions =
        [\<lparr>tx_id = 1, tx_account_id = 1, tx_date = ''2024-01-05'', tx_description = ''Market'',
          tx_amount = - (51 / 2), tx_category_id = Some 2\<rparr>,
         \<lparr>tx_id = 2, tx_account_id = 1, tx_date = ''2024-01-10'', tx_description = ''Pay'',
          tx_amount = 1000, tx_category_id = Some 3\<rparr>],
      budgets = [],
      accounts_seq = 2,
      transactions_seq = 2\<rparr>"



section \<open>Properties of the balance calculation\<close>






lemma quantize_zero: "quantize 0 = 0"
  by code_simp




section \<open>Properties of deleting a transaction\<close>





section \<open>Properties of the category operations\<close>

lemma update_category_new_name_refused:
  "lower (strip new_name) = ''uncategorized'' \<Longrightarrow>
     update_category conn st cid new_name new_type = (False, st)"
  by (simp add: update_category_def Let_def)

lemma update_category_target_refused:
  assumes "category_by_id st cid = Some cat" and "lower (cat_name cat) = ''uncategorized''"
  shows "update_category conn st cid new_name new_type = (False, st)"
  using assms
  by (cases conn) (simp_all add: update_category_def update_category_tx_def Let_def)

lemma delete_category_target_refused:
  assumes "category_by_id st cid = Some cat" and "lower (cat_name cat) = ''uncategorized''"
  shows "delete_category conn st cid = (False, st)"
  using assms
  by (cases conn) (simp_all add: delete_category_def delete_category_tx_def)

text \<open>With a primary key, the row that \<^verbatim>\<open>SELECT ... WHERE id = ?\<close> returns is the only
  row with that id.\<close>

lemma category_by_id_unique:
  assumes "distinct (map cat_id (categories st))" and "r \<in> set (categories st)"
  shows "category_by_id st (cat_id r) = Some r"
proof -
  have "distinct (map cat_id xs) \<Longrightarrow> r \<in> set xs \<Longrightarrow> find (\<lambda>c. cat_id c = cat_id r) xs = Some r"
    for xs
    by (induction xs) force+
  with assms show ?thesis by (simp add: category_by_id_def)
qed

lemma update_category_keeps_other_rows:
  assumes "r \<in> set (categories st)" and "cat_id r \<noteq> cid"
  shows "r \<in> set (categories (snd (update_category conn st cid new_name new_type)))"
proof -
  have "r \<in> set (map (\<lambda>c. if cat_id c = cid then c\<lparr>cat_name := n, cat_type := ty\<rparr> else c)
                  (categories st))" for n ty
    using assms by force
  with assms(1) show ?thesis
    by (cases conn)
      (auto simp: update_category_def update_category_tx_def Let_def
        split: option.splits sqlite_error.splits)
qed

lemma delete_category_keeps_other_rows:
  assumes "r \<in> set (categories st)" and "cat_id r \<noteq> cid"
  shows "r \<in> set (categories (snd (delete_category conn st cid)))"
  using assms
  by (cases conn)
    (auto simp: delete_category_def delete_category_tx_def split: option.splits)

lemma protected_row_survives:
  assumes pk: "distinct (map cat_id (categories st))"
    and r: "r \<in> set (categories st)" and u: "lower (cat_name r) = ''uncategorized''"
  shows "r \<in> set (categories (snd (update_category conn st cid new_name new_type)))"
    and "r \<in> set (categories (snd (delete_category conn st cid)))"
proof -
  have found: "category_by_id st (cat_id r) = Some r"
    using category_by_id_unique [OF pk r] .
  show "r \<in> set (categories (snd (update_category conn st cid new_name new_type)))"
  proof (cases "cat_id r = cid")
    case True
    with found u r show ?thesis
      by (simp add: update_category_target_refused [of st cid r])
  next
    case False
    with r show ?thesis by (rule update_category_keeps_other_rows)
  qed
  show "r \<in> set (categories (snd (delete_category conn st cid)))"
  proof (cases "cat_id r = cid")
    case True
    with found u r show ?thesis
      by (simp add: delete_category_target_refused [of st cid r])
  next
    case False
    with r show ?thesis by (rule delete_category_keeps_other_rows)
  qed
qed

text \<open>
  C2. For every id, name and type string, \<^verbatim>\<open>update_category\<close> and \<^verbatim>\<open>delete_category\<close>
  leave the Uncategorized category row as it is. \<^verbatim>\<open>update_category\<close> returns False when
  the new name is Uncategorized (after trimming, in any letter case) and when the target
  row's name is Uncategorized in any letter case; \<^verbatim>\<open>delete_category\<close> returns False when
  the target row's name is Uncategorized; in these cases the store is unchanged. In a
  table whose ids are a primary key, every row named Uncategorized is still a row of the
  table after either call, whatever the arguments.
\<close>

theorem uncategorized_is_protected:
  "(lower (strip new_name) = ''uncategorized'' \<longrightarrow>
      update_category conn st cid new_name new_type = (False, st))
   \<and> (\<forall>cat. category_by_id st cid = Some cat \<and> lower (cat_name cat) = ''uncategorized'' \<longrightarrow>
         update_category conn st cid new_name new_type = (False, st)
         \<and> delete_category conn st cid = (False, st))
   \<and> (distinct (map cat_id (categories st)) \<longrightarrow>
        (\<forall>r \<in> set (categories st). lower (cat_name r) = ''uncategorized'' \<longrightarrow>
           r \<in> set (categories (snd (update_category conn st cid new_name new_type)))
           \<and> r \<in> set (categories (snd (delete_category conn st cid)))))"
proof (intro conjI impI allI ballI)
  assume "lower (strip new_name) = ''uncategorized''"
  then show "update_category conn st cid new_name new_type = (False, st)"
    by (rule update_category_new_name_refused)
next
  fix cat
  assume "category_by_id st cid = Some cat \<and> lower (cat_name cat) = ''uncategorized''"
  then show "update_category conn st cid new_name new_type = (False, st)"
    by (simp add: update_category_target_refused [of st cid cat])
next
  fix cat
  assume "category_by_id st cid = Some cat \<and> lower (cat_name cat) = ''uncategorized''"
  then show "delete_category conn st cid = (False, st)"
    by (simp add: delete_category_target_refused [of st cid cat])
next
  fix r
  assume "distinct (map cat_id (categories st))" "r \<in> set (categories st)"
    "lower (cat_name r) = ''uncategorized''"
  then show "r \<in> set (categories (snd (update_category conn st cid new_name new_type)))"
    by (rule protected_row_survives)
next
  fix r
  assume "distinct (map cat_id (categories st))" "r \<in> set (categories st)"
    "lower (cat_name r) = ''uncategorized''"
  then show "r \<in> set (categories (snd (delete_category conn st cid)))"
    by (rule protected_row_survives)
qed

text \<open>
  On the scenario store: renaming category 2 to " UNCATEGORIZED " is refused, renaming,
  retyping or deleting category 1 (Uncategorized) is refused, and row 1 is still there
  after updating or deleting category 2.
\<close>

theorem uncategorized_is_protected_witness:
  "lower (strip '' UNCATEGORIZED '') = ''uncategorized''
   \<and> update_category Conn_ok scenario_store 2 '' UNCATEGORIZED '' ''expense''
       = (False, scenario_store)
   \<and> category_by_id scenario_store 1
       = Some \<lparr>cat_id = 1, cat_name = ''Uncategorized'', cat_type = ''expense''\<rparr>
   \<and> update_category Conn_ok scenario_store 1 ''Misc'' ''income'' = (False, scenario_store)
   \<and> delete_category Conn_ok scenario_store 1 = (False, scenario_store)
   \<and> distinct (map cat_id (categories scenario_store))
   \<and> \<lparr>cat_id = 1, cat_name = ''Uncategorized'', cat_type = ''expense''\<rparr>
       \<in> set (categories (snd (update_category Conn_ok scenario_store 2 ''Food'' ''expense'')))
   \<and> \<lparr>cat_id = 1, cat_name = ''Uncategorized'', cat_type = ''expense''\<rparr>
       \<in> set (categories (snd (delete_category Conn_ok scenario_store 2)))
   \<and> fst (update_category Conn_ok scenario_store 2 ''Food'' ''expense'')
   \<and> fst (delete_category Conn_ok scenario_store 2)"
proof -
  let ?u = "\<lparr>cat_id = 1, cat_name = ''Uncategorized'', cat_type = ''expense''\<rparr>"
  have n: "lower (strip '' UNCATEGORIZED '') = ''uncategorized''"
    by code_simp
  have c: "category_by_id scenario_store 1 = Some ?u"
    by (simp add: category_by_id_def scenario_store_def scenario_categories_def)
  have l: "lower (cat_name ?u) = ''uncategorized''"
    by code_simp
  have d: "distinct (map cat_id (categories scenario_store))"
    by (simp add: scenario_store_def scenario_categories_def)
  have m: "?u \<in> set (categories scenario_store)"
    by (simp add: scenario_store_def scenario_categories_def)
  note a = uncategorized_is_protected [where new_name = "'' UNCATEGORIZED ''" and conn = Conn_ok
      and st = scenario_store and cid = 2 and new_type = "''expense''"]
  note b = uncategorized_is_protected [where new_name = "''Misc''" and conn = Conn_ok
      and st = scenario_store and cid = 1 and new_type = "''income''"]
  note e = uncategorized_is_protected [where new_name = "''Food''" and conn = Conn_ok
      and st = scenario_store and cid = 2 and new_type = "''expense''"]
  from a n have 1: "update_category Conn_ok scenario_store 2 '' UNCATEGORIZED '' ''expense''
      = (False, scenario_store)"
    by blast
  from b c l have 2: "update_category Conn_ok scenario_store 1 ''Misc'' ''income''
      = (False, scenario_store)"
    by blast
  from b c l have 3: "delete_category Conn_ok scenario_store 1 = (False, scenario_store)"
    by blast
  from e d m l have 4:
    "?u \<in> set (categories (snd (update_category Conn_ok scenario_store 2 ''Food'' ''expense'')))"
    by blast
  from e d m l have 5: "?u \<in> set (categories (snd (delete_category Conn_ok scenario_store 2)))"
    by blast
  have 6: "fst (update_category Conn_ok scenario_store 2 ''Food'' ''expense'')"
    by code_simp
  have 7: "fst (delete_category Conn_ok scenario_store 2)"
    by code_simp
  from n 1 c 2 3 d 4 5 6 7 show ?thesis by blast
qed

section \<open>Properties of rounding\<close>







lemma quantize_nonpos: "x < 0 \<Longrightarrow> quantize x \<le> 0"
proof -
  assume "x < 0"
  then have "0 \<le> \<lfloor>- x * 100 + 1 / 2\<rfloor>" by simp
  with \<open>x < 0\<close> show ?thesis by (simp add: quantize_def)
qed


lemma quantize_pos_imp: "0 < quantize x \<Longrightarrow> 0 < x"
  using quantize_nonpos [of x] quantize_zero by (cases "x < 0"; cases "x = 0") auto


section \<open>Properties of the budget operations\<close>














section \<open>Properties of writing a transaction\<close>










section \<open>Declined and faulted calls\<close>









section \<open>Properties of the spending report\<close>



















section \<open>Properties of the monetary text parser\<close>














end
